theory Spec2Isabelle
  imports Complex_Main "HOL-Library.AList" "HOL-Library.Multiset"
begin

section \<open>Stat catalog (optimize/toppings.py)\<close>

text \<open>
  Python's \<open>Decimal\<close> values are modelled as rationals: every decimal literal is a
  rational and sums of the small values met here are exact in the default 28-digit context.
\<close>

type_synonym decimal = rat

text \<open>
  The exceptions of the code. The compile errors carry the name of the cookie (and the
  offending text where the message has it); \<open>ImpossibleRequirements\<close> is the
  \<open>ValueError\<close> of \<open>realize\<close>, with the cookie, the lower target, the stat and the upper
  target of its message.
\<close>

datatype error =
    KeyError
  | IndexError
  | ValueError string
  | NoObjective string
  | CouldNotParse string string
  | RelativeTarget string
  | OnlyOneObjective string
  | NoMaxKey string
  | ComboNoSubstats string
  | OnlyOneTart string
  | CouldNotParseTart string string
  | CouldNotParseBiscuit string string
  | ImpossibleRequirements string decimal string decimal

datatype Resonance =
    NORMAL | MOONKISSED | TRIO | DRACONIC | TROPICAL_ROCK | SEA_SALT | RADIANT_CHEESE
  | FROSTED_CRYSTAL | LIFESPROUTING | DESTRUCTIVE | FRAGRANT | IRIS_GEM | DECEITFUL
  | TRUTHFUL | SACRED_VOW

datatype Type =
    DMGRES | ATK | CD | ATKSPD | CRIT | HP | BUFF | DEF | BUFFRES | CRITRES
  | DARK_DMG | ELEC_DMG | FIRE_DMG | EARTH_DMG | POISON_DMG | LIGHT_DMG
  | CRIT_DMG | ATK_MULT
  | COMBO | E_DMG | VITALITY
  | RNG | NONE

text \<open>The \<open>value\<close> string of each member of the enum \<open>Type\<close>.\<close>

fun Type_value :: "Type \<Rightarrow> string" where
  "Type_value DMGRES = ''DMG Resist''"
| "Type_value ATK = ''ATK''"
| "Type_value CD = ''Cooldown''"
| "Type_value ATKSPD = ''ATK SPD''"
| "Type_value CRIT = ''CRIT%''"
| "Type_value HP = ''HP''"
| "Type_value BUFF = ''Amplify Buff''"
| "Type_value DEF = ''DEF''"
| "Type_value BUFFRES = ''Debuff Resist''"
| "Type_value CRITRES = ''CRIT Resist''"
| "Type_value DARK_DMG = ''DARK DMG''"
| "Type_value ELEC_DMG = ''ELEC DMG''"
| "Type_value FIRE_DMG = ''FIRE DMG''"
| "Type_value EARTH_DMG = ''EARTH DMG''"
| "Type_value POISON_DMG = ''POISON DMG''"
| "Type_value LIGHT_DMG = ''LIGHT DMG''"
| "Type_value CRIT_DMG = ''CRIT DMG''"
| "Type_value ATK_MULT = ''ATK MULT''"
| "Type_value COMBO = ''Combo''"
| "Type_value E_DMG = ''E[DMG]''"
| "Type_value VITALITY = ''Vitality''"
| "Type_value RNG = ''RNG''"
| "Type_value NONE = ''None''"

definition all_Types :: "Type list" where
  "all_Types = [DMGRES, ATK, CD, ATKSPD, CRIT, HP, BUFF, DEF, BUFFRES, CRITRES,
     DARK_DMG, ELEC_DMG, FIRE_DMG, EARTH_DMG, POISON_DMG, LIGHT_DMG,
     CRIT_DMG, ATK_MULT, COMBO, E_DMG, VITALITY, RNG, NONE]"

text \<open>\<open>Type(s)\<close>: the member whose value is \<open>s\<close>; a \<open>ValueError\<close> when there is none.\<close>

definition Type_of :: "string \<Rightarrow> error + Type" where
  "Type_of s = (case find (\<lambda>t. Type_value t = s) all_Types of
                  None \<Rightarrow> Inl (ValueError s)
                | Some t \<Rightarrow> Inr t)"

text \<open>
  The \<open>"combos"\<close> entry of \<open>INFO\<close>: the set-bonus schedule of each stat that has a
  topping kind. \<open>INFO[s]\<close> raises \<open>KeyError\<close> for the other members of \<open>Type\<close>.
\<close>

fun INFO_combos :: "Type \<Rightarrow> (nat \<times> decimal) list option" where
  "INFO_combos DMGRES = Some [(2, 3), (3, 7), (5, 8), (6, 10)]"
| "INFO_combos ATK = Some [(2, 4), (3, 8), (5, 10), (6, 12)]"
| "INFO_combos CD = Some [(2, 2), (3, 4), (5, 5), (6, 6)]"
| "INFO_combos ATKSPD = Some [(2, 7), (3, 8), (5, 10), (6, 12)]"
| "INFO_combos CRIT = Some [(2, 4), (3, 6), (5, 8), (6, 10)]"
| "INFO_combos HP = Some [(2, 4), (3, 10), (5, 12), (6, 15)]"
| "INFO_combos BUFF = Some [(2, 9), (3, 10), (5, 11), (6, 12)]"
| "INFO_combos DEF = Some [(2, 10), (3, 13), (5, 20), (6, 25)]"
| "INFO_combos BUFFRES = Some [(2, 10), (3, 11), (5, 12), (6, 13)]"
| "INFO_combos CRITRES = Some [(2, 20), (3, 25), (5, 30), (6, 35)]"
| "INFO_combos _ = None"

section \<open>Item model (optimize/toppings.py)\<close>

text \<open>
  A substat value of a topping is a \<open>Decimal\<close>, or the float infinity that the
  constructor leaves as it is.
\<close>

datatype substat_value = Dec decimal | FloatInf

text \<open>
  A \<open>Topping\<close> object. \<open>ident\<close> is the identity of the allocation, \<open>id(self)\<close>:
  two separately constructed objects have different \<open>ident\<close>.
\<close>

record Topping =
  ident :: nat
  resonance :: "Resonance option"
  flavor :: Type
  substats :: "(Type \<times> substat_value) list"

text \<open>
  \<open>Topping.__init__\<close>, at the allocation \<open>i\<close>. The substat names arrive as strings; the
  values arrive as what \<open>Decimal(value)\<close> denotes, or as the float infinity.
\<close>

fun convert_substats :: "(string \<times> substat_value) list \<Rightarrow> error + (Type \<times> substat_value) list" where
  "convert_substats [] = Inr []"
| "convert_substats ((substat, v) # rest) =
     (case Type_of substat of
        Inl e \<Rightarrow> Inl e
      | Inr t \<Rightarrow> (case convert_substats rest of
                    Inl e \<Rightarrow> Inl e
                  | Inr ss \<Rightarrow> Inr ((t, v) # ss)))"

definition Topping_init :: "nat \<Rightarrow> (string \<times> substat_value) list \<Rightarrow> Resonance option \<Rightarrow> error + Topping" where
  "Topping_init i raw res =
     (case raw of
        [] \<Rightarrow> Inl IndexError
      | (first, _) # _ \<Rightarrow>
          (case Type_of first of
             Inl e \<Rightarrow> Inl e
           | Inr fl \<Rightarrow>
               (case convert_substats raw of
                  Inl e \<Rightarrow> Inl e
                | Inr ss \<Rightarrow> Inr \<lparr>ident = i, resonance = res, flavor = fl, substats = ss\<rparr>)))"

text \<open>\<open>Topping.__eq__\<close> and \<open>Topping.__hash__\<close>.\<close>

definition Topping_eq :: "Topping \<Rightarrow> Topping \<Rightarrow> bool" where
  "Topping_eq self other \<longleftrightarrow> substats self = substats other \<and> resonance self = resonance other"

definition Topping_hash :: "Topping \<Rightarrow> nat" where
  "Topping_hash self = ident self"

text \<open>A \<open>ToppingSet\<close> holds the list of toppings it was built from.\<close>

record ToppingSet =
  toppings :: "Topping list"

text \<open>
  \<open>ToppingSet.set_effect\<close>: the loop over the reversed schedule returns at the first tier
  whose required count is reached, and \<open>(0, Decimal("0"))\<close> when the loop ends.
\<close>

definition matching_count :: "Topping list \<Rightarrow> Type \<Rightarrow> nat" where
  "matching_count ts s = length (filter (\<lambda>t. flavor t = s) ts)"

fun set_effect_scan :: "(nat \<times> decimal) list \<Rightarrow> nat \<Rightarrow> nat \<times> decimal" where
  "set_effect_scan [] n = (0, 0)"
| "set_effect_scan ((required_count, set_bonus) # rest) n =
     (if n \<ge> required_count then (required_count, set_bonus) else set_effect_scan rest n)"

definition set_effect :: "ToppingSet \<Rightarrow> Type \<Rightarrow> error + nat \<times> decimal" where
  "set_effect self substat =
     (case INFO_combos substat of
        None \<Rightarrow> Inl KeyError
      | Some combos \<Rightarrow> Inr (set_effect_scan (rev combos) (matching_count (toppings self) substat)))"

section \<open>The set-bonus bound (Requirements.best\_possible\_set\_effect)\<close>

text \<open>
  Python dictionaries keep insertion order; they are association lists here, updated with
  \<open>AList.update\<close> (a present key keeps its place, a new key goes last).
\<close>

definition dict_get :: "('k \<times> 'v) list \<Rightarrow> 'k \<Rightarrow> 'v \<Rightarrow> 'v" where
  "dict_get d k dflt = (case map_of d k of None \<Rightarrow> dflt | Some v \<Rightarrow> v)"

type_synonym set_bonuses = "(nat \<times> (Type \<times> decimal) list) list"

text \<open>The inner loop over the tiers of one stat; \<open>best_set_bonuses[req]\<close> may raise \<open>KeyError\<close>.\<close>

fun record_tiers :: "set_bonuses \<Rightarrow> Type \<Rightarrow> nat \<Rightarrow> (nat \<times> decimal) list \<Rightarrow> error + set_bonuses" where
  "record_tiers best s mc [] = Inr best"
| "record_tiers best s mc ((req, bonus) # rest) =
     (if req \<le> mc then
        (case map_of best req of
           None \<Rightarrow> Inl KeyError
         | Some d \<Rightarrow>
             record_tiers (AList.update req (AList.update s (max (dict_get d s 0) bonus) d) best)
               s mc rest)
      else record_tiers best s mc rest)"

text \<open>The outer loop over the candidate substats.\<close>

fun record_substats :: "set_bonuses \<Rightarrow> Topping list \<Rightarrow> Type list \<Rightarrow> error + set_bonuses" where
  "record_substats best combo [] = Inr best"
| "record_substats best combo (s # rest) =
     (case INFO_combos s of
        None \<Rightarrow> Inl KeyError
      | Some combos \<Rightarrow>
          (case record_tiers best s (matching_count combo s) combos of
             Inl e \<Rightarrow> Inl e
           | Inr best' \<Rightarrow> record_substats best' combo rest))"

text \<open>The two nested loops over the 2-piece and the 3-piece entries.\<close>

definition best_2_3 :: "(Type \<times> decimal) list \<Rightarrow> (Type \<times> decimal) list \<Rightarrow> decimal" where
  "best_2_3 d2 d3 =
     foldl (\<lambda>acc (s2, bonus2).
        foldl (\<lambda>acc' (s3, bonus3). if s2 \<noteq> s3 then max acc' (bonus2 + bonus3) else acc') acc d3)
       0 d2"

text \<open>\<open>max(d.values(), default=Decimal(0))\<close>.\<close>

definition max_default :: "decimal list \<Rightarrow> decimal" where
  "max_default vs = (case vs of [] \<Rightarrow> 0 | v # rest \<Rightarrow> foldl max v rest)"

definition best_possible_set_effect :: "Topping list \<Rightarrow> Type list \<Rightarrow> int \<Rightarrow> error + decimal" where
  "best_possible_set_effect combo stats non_match_count =
     (case record_substats [(2, []), (3, []), (5, []), (6, [])] combo stats of
        Inl e \<Rightarrow> Inl e
      | Inr best \<Rightarrow>
          (case (map_of best 2, map_of best 3, map_of best 5, map_of best 6) of
             (Some d2, Some d3, Some d5, Some d6) \<Rightarrow>
               Inr (max (best_2_3 d2 d3)
                     (max (max_default (map snd d2))
                       (max (max_default (map snd d3))
                         (max (max_default (map snd d5)) (max_default (map snd d6))))))
           | _ \<Rightarrow> Inl KeyError))"

section \<open>Documents and collaborators (optimize/requirements.py)\<close>

text \<open>
  The built-in baseline table \<open>DEFAULT_MODIFIERS\<close>: per stat, the named default bonuses.
\<close>

definition DEFAULT_MODIFIERS :: "(Type \<times> (string \<times> decimal) list) list" where
  "DEFAULT_MODIFIERS =
     [(ATK, [(''Base'', 100)]),
      (CRIT, [(''Base'', 5), (''Eerie Haunted House Landmark'', 8)]),
      (CRIT_DMG, [(''Base'', 150), (''CRIT DMG Bonus Lab'', 20),
                  (''Chocolate Alter of the Fallen Landmark'', 20)]),
      (HP, [(''Base'', 100)])]"

text \<open>
  The loaded YAML document. A declared modifier is \<open>{source, value}\<close>; \<open>buff_value\<close> is
  the decimal that \<open>Decimal(buff["value"])\<close> yields. The objective clause of a cookie is
  a mapping: its \<open>max\<close> key, its \<open>substats\<close> key and its other keys (the per-stat
  override deltas, each already the decimal that \<open>Decimal\<close> yields). A requirement is a
  string, a mapping, or some other YAML value, which the compiler skips.
\<close>

record buff =
  buff_source :: string
  buff_value :: decimal

record objective_doc =
  obj_max :: "string option"
  obj_substats :: "string list option"
  obj_deltas :: "(string \<times> decimal) list"

datatype requirement = ReqStr string | ReqDict objective_doc | ReqOther

datatype line = LineStr string | LineOther

record cookie_doc =
  cookie_name :: string
  cookie_requirements :: "requirement list"
  cookie_resonant :: "string list option"
  cookie_tart :: "line list option"
  cookie_biscuit :: "line list option"

record document =
  doc_modifiers :: "(string \<times> buff list) list option"
  doc_leaderboard :: "(string \<times> int) list option"
  doc_cookies :: "cookie_doc list option"

text \<open>
  The validity constraints, with the fields that the code under \<open>optimize/requirements.py\<close>
  reads: every constraint has a \<open>substat\<close>; \<open>Normal\<close> has the string of its operator and
  a \<open>target\<close>, \<open>Range\<close> a \<open>low_target\<close> and a \<open>high_target\<close>, \<open>Equality\<close> a
  \<open>target\<close>, \<open>Relative\<close> the name of the \<open>cookie\<close> it refers to.
\<close>

datatype validity =
    Normal Type string decimal
  | Range Type decimal decimal
  | Equality Type decimal
  | Relative Type string

fun substat_of :: "validity \<Rightarrow> Type" where
  "substat_of (Normal s _ _) = s"
| "substat_of (Range s _ _) = s"
| "substat_of (Equality s _) = s"
| "substat_of (Relative s _) = s"

text \<open>
  A converted constraint, as \<open>realize\<close> and the accessor views read it:
  \<open>substat\<close>, \<open>op.str\<close> and \<open>target\<close>.
\<close>

record bound =
  b_substat :: Type
  b_op :: string
  b_target :: decimal

type_synonym mods = "(Type \<times> decimal) list"

text \<open>The \<open>{min, max}\<close> bounds that a Special objective carries per stat.\<close>

type_synonym special_bounds = "(Type \<times> decimal \<times> decimal) list"

datatype objective =
    Combo "Type list" mods
  | EDMG mods special_bounds
  | Vitality mods special_bounds
  | Objective Type

text \<open>
  The classes of \<open>optimize/validity.py\<close>, \<open>optimize/objectives.py\<close> and
  \<open>crk/cookies.py\<close> are used by the compiler and are taken as parameters: the four
  parsers, \<open>Cookie.get(name).resonant\<close>, the bounds a Special objective starts with,
  \<open>convert\<close> and \<open>fuzz\<close>.
\<close>

record collaborators =
  Normal_parse :: "string \<Rightarrow> validity option"
  Range_parse :: "string \<Rightarrow> validity option"
  Equality_parse :: "string \<Rightarrow> (Type \<times> decimal) option"
  Relative_parse :: "string \<Rightarrow> validity option"
  Cookie_get :: "string \<Rightarrow> Resonance list option"
  Special_bounds :: "Type \<Rightarrow> mods \<Rightarrow> special_bounds"
  convert :: "validity \<Rightarrow> (string \<times> ToppingSet) list \<Rightarrow> error + bound list"
  fuzz :: "bound \<Rightarrow> bound"

text \<open>
  A compiled \<open>Requirements\<close> object, before \<open>realize\<close>. The field \<open>resonance\<close> of the
  source is \<open>resonances\<close> here.
\<close>

record Requirements =
  name :: string
  valid :: "validity list"
  objective :: objective
  mods :: mods
  resonances :: "Resonance list"
  tart :: "(Type \<times> decimal) option"
  biscuit :: "(Type \<times> decimal) list"
  weight :: "int option"

fun Resonance_value :: "Resonance \<Rightarrow> string" where
  "Resonance_value NORMAL = ''Normal''"
| "Resonance_value MOONKISSED = ''Moonkissed''"
| "Resonance_value TRIO = ''Trio''"
| "Resonance_value DRACONIC = ''Draconic''"
| "Resonance_value TROPICAL_ROCK = ''Tropical Rock''"
| "Resonance_value SEA_SALT = ''Sea Salt''"
| "Resonance_value RADIANT_CHEESE = ''Radiant Cheese''"
| "Resonance_value FROSTED_CRYSTAL = ''Frosted Crystal''"
| "Resonance_value LIFESPROUTING = ''Life-sprouting''"
| "Resonance_value DESTRUCTIVE = ''Destructive''"
| "Resonance_value FRAGRANT = ''Fragrant''"
| "Resonance_value IRIS_GEM = ''Iris Gem''"
| "Resonance_value DECEITFUL = ''Deceitful''"
| "Resonance_value TRUTHFUL = ''Truthful''"
| "Resonance_value SACRED_VOW = ''Sacred Vow''"

definition all_Resonances :: "Resonance list" where
  "all_Resonances = [NORMAL, MOONKISSED, TRIO, DRACONIC, TROPICAL_ROCK, SEA_SALT, RADIANT_CHEESE,
     FROSTED_CRYSTAL, LIFESPROUTING, DESTRUCTIVE, FRAGRANT, IRIS_GEM, DECEITFUL, TRUTHFUL,
     SACRED_VOW]"

definition Resonance_of :: "string \<Rightarrow> error + Resonance" where
  "Resonance_of s = (case find (\<lambda>r. Resonance_value r = s) all_Resonances of
                       None \<Rightarrow> Inl (ValueError s)
                     | Some r \<Rightarrow> Inr r)"

text \<open>A list comprehension whose element expression may raise.\<close>

fun map_result :: "('a \<Rightarrow> error + 'b) \<Rightarrow> 'a list \<Rightarrow> error + 'b list" where
  "map_result f [] = Inr []"
| "map_result f (x # xs) =
     (case f x of
        Inl e \<Rightarrow> Inl e
      | Inr y \<Rightarrow> (case map_result f xs of Inl e \<Rightarrow> Inl e | Inr ys \<Rightarrow> Inr (y # ys)))"

section \<open>Document normalization (sanitize)\<close>

text \<open>
  \<open>sanitize\<close> reads the document, rewrites it and writes it to a temporary file; the model
  is the rewriting of the loaded document. The legacy spelling \<open>E[Vit]\<close> of an objective
  becomes \<open>Vitality\<close>.
\<close>

fun convert_requirement :: "requirement \<Rightarrow> requirement" where
  "convert_requirement (ReqDict od) =
     (if obj_max od = Some ''E[Vit]'' then ReqDict (od\<lparr>obj_max := Some ''Vitality''\<rparr>) else ReqDict od)"
| "convert_requirement r = r"

definition convert_cookie :: "cookie_doc \<Rightarrow> cookie_doc" where
  "convert_cookie cookie =
     cookie\<lparr>cookie_requirements := map convert_requirement (cookie_requirements cookie)\<rparr>"

text \<open>
  The comprehension that keeps the declared modifiers of one stat whose source is not a
  key of the stat's baseline entries. \<open>Type(substat)\<close> is evaluated for each modifier.
\<close>

fun filter_substat :: "string \<Rightarrow> buff list \<Rightarrow> error + buff list" where
  "filter_substat substat [] = Inr []"
| "filter_substat substat (m # rest) =
     (case Type_of substat of
        Inl e \<Rightarrow> Inl e
      | Inr t \<Rightarrow>
          (case filter_substat substat rest of
             Inl e \<Rightarrow> Inl e
           | Inr kept \<Rightarrow>
               if buff_source m \<notin> fst ` set (dict_get DEFAULT_MODIFIERS t []) then Inr (m # kept)
               else Inr kept))"

fun filter_modifiers :: "(string \<times> buff list) list \<Rightarrow> (string \<times> buff list) list
    \<Rightarrow> error + (string \<times> buff list) list" where
  "filter_modifiers filtered_mods [] = Inr filtered_mods"
| "filter_modifiers filtered_mods ((substat, ms) # rest) =
     (case filter_substat substat ms of
        Inl e \<Rightarrow> Inl e
      | Inr filtered_substat \<Rightarrow>
          if filtered_substat \<noteq> [] then
            filter_modifiers (AList.update substat filtered_substat filtered_mods) rest
          else filter_modifiers filtered_mods rest)"

definition sanitize :: "document \<Rightarrow> bool \<Rightarrow> error + document" where
  "sanitize requirements rem_leaderboard =
     (let r1 = (if rem_leaderboard then requirements\<lparr>doc_leaderboard := None\<rparr> else requirements);
          r2 = r1\<lparr>doc_cookies := map_option (map convert_cookie) (doc_cookies r1)\<rparr>
      in case filter_modifiers [] (case doc_modifiers r2 of None \<Rightarrow> [] | Some ms \<Rightarrow> ms) of
           Inl e \<Rightarrow> Inl e
         | Inr filtered_mods \<Rightarrow>
             if filtered_mods \<noteq> [] then Inr (r2\<lparr>doc_modifiers := Some filtered_mods\<rparr>)
             else Inr r2)"

section \<open>Modifier accumulation and compilation (Requirements.from\_yaml)\<close>

text \<open>\<open>mods[stat] += value\<close> on a \<open>defaultdict(Decimal)\<close>.\<close>

definition mods_add :: "mods \<Rightarrow> Type \<Rightarrow> decimal \<Rightarrow> mods" where
  "mods_add m stat v = AList.update stat (dict_get m stat 0 + v) m"

definition default_mods :: mods where
  "default_mods =
     foldl (\<lambda>m (stat, buffs). foldl (\<lambda>m' (source, v). mods_add m' stat v) m buffs)
       [] DEFAULT_MODIFIERS"

fun add_buffs :: "mods \<Rightarrow> string \<Rightarrow> buff list \<Rightarrow> error + mods" where
  "add_buffs m stat [] = Inr m"
| "add_buffs m stat (b # buffs) =
     (case Type_of stat of
        Inl e \<Rightarrow> Inl e
      | Inr t \<Rightarrow> add_buffs (mods_add m t (buff_value b)) stat buffs)"

fun add_modifiers :: "mods \<Rightarrow> (string \<times> buff list) list \<Rightarrow> error + mods" where
  "add_modifiers m [] = Inr m"
| "add_modifiers m ((stat, buffs) # rest) =
     (case add_buffs m stat buffs of
        Inl e \<Rightarrow> Inl e
      | Inr m' \<Rightarrow> add_modifiers m' rest)"

text \<open>The vector \<open>mods\<close> that \<open>from_yaml\<close> has accumulated when it reaches the cookies.\<close>

definition accumulate_mods :: "document \<Rightarrow> error + mods" where
  "accumulate_mods requirements =
     add_modifiers default_mods (case doc_modifiers requirements of None \<Rightarrow> [] | Some ms \<Rightarrow> ms)"

text \<open>
  \<open>parse_valid_requirement\<close>: the parsers in the order Normal, Range, Equality, Relative;
  the first result wins.
\<close>

definition parse_valid_requirement :: "collaborators \<Rightarrow> string \<Rightarrow> validity option" where
  "parse_valid_requirement c requirement =
     (case Normal_parse c requirement of
        Some result \<Rightarrow> Some result
      | None \<Rightarrow>
     (case Range_parse c requirement of
        Some result \<Rightarrow> Some result
      | None \<Rightarrow>
     (case Equality_parse c requirement of
        Some (s, t) \<Rightarrow> Some (Equality s t)
      | None \<Rightarrow> Relative_parse c requirement)))"

text \<open>
  The loop \<open>for substat in cookie_mods: cookie_mods[substat] += Decimal(requirement.get(...))\<close>:
  it updates, in place, the dictionary it was given.
\<close>

definition add_deltas :: "objective_doc \<Rightarrow> mods \<Rightarrow> mods" where
  "add_deltas requirement cookie_mods =
     foldl (\<lambda>m substat. mods_add m substat (dict_get (obj_deltas requirement) (Type_value substat) 0))
       cookie_mods (map fst cookie_mods)"

text \<open>
  \<open>parse_objective_requirement\<close> returns the objective; the second component is the
  dictionary \<open>cookie_mods\<close> of the caller after the call. The objective holds that same
  dictionary.
\<close>

definition parse_objective_requirement ::
    "collaborators \<Rightarrow> objective_doc \<Rightarrow> mods \<Rightarrow> error + objective \<times> mods" where
  "parse_objective_requirement c requirement cookie_mods =
     (case obj_max requirement of
        None \<Rightarrow> Inl KeyError
      | Some mx \<Rightarrow>
     (case Type_of mx of
        Inl e \<Rightarrow> Inl e
      | Inr obj \<Rightarrow>
          if obj = COMBO then
            (case obj_substats requirement of
               None \<Rightarrow> Inl KeyError
             | Some subs \<Rightarrow>
                 (case map_result Type_of subs of
                    Inl e \<Rightarrow> Inl e
                  | Inr types \<Rightarrow> Inr (Combo types cookie_mods, cookie_mods)))
          else if obj = E_DMG then
            (let m = add_deltas requirement cookie_mods
             in Inr (EDMG m (Special_bounds c E_DMG m), m))
          else if obj = VITALITY then
            (let m = add_deltas requirement cookie_mods
             in Inr (Vitality m (Special_bounds c VITALITY m), m))
          else Inr (Objective obj, cookie_mods)))"

text \<open>
  One iteration of the loop over a cookie's requirements. The state is \<open>valid_reqs\<close>,
  \<open>objective\<close> and the dictionary \<open>cookie_mods\<close>; \<open>cookie_names\<close> holds the names of
  the cookies compiled before this one.
\<close>

type_synonym cookie_state = "validity list \<times> objective option \<times> mods"

fun requirement_step ::
    "collaborators \<Rightarrow> string \<Rightarrow> string set \<Rightarrow> cookie_state \<Rightarrow> requirement \<Rightarrow> error + cookie_state" where
  "requirement_step c cname cookie_names (valid_reqs, obj, cookie_mods) (ReqStr r) =
     (case parse_valid_requirement c r of
        None \<Rightarrow> Inl (CouldNotParse cname r)
      | Some v \<Rightarrow>
          (case v of
             Relative s target \<Rightarrow>
               if target \<notin> cookie_names then Inl (RelativeTarget cname)
               else Inr (valid_reqs @ [v], obj, cookie_mods)
           | _ \<Rightarrow> Inr (valid_reqs @ [v], obj, cookie_mods)))"
| "requirement_step c cname cookie_names (valid_reqs, obj, cookie_mods) (ReqDict od) =
     (if obj \<noteq> None then Inl (OnlyOneObjective cname)
      else if obj_max od = None then Inl (NoMaxKey cname)
      else
        (case parse_objective_requirement c od cookie_mods of
           Inl e \<Rightarrow> Inl e
         | Inr (ob, m) \<Rightarrow>
             (case ob of
                Combo types _ \<Rightarrow>
                  if types = [] then Inl (ComboNoSubstats cname)
                  else Inr (valid_reqs, Some ob, m)
              | _ \<Rightarrow> Inr (valid_reqs, Some ob, m))))"
| "requirement_step c cname cookie_names st ReqOther = Inr st"

fun requirement_loop ::
    "collaborators \<Rightarrow> string \<Rightarrow> string set \<Rightarrow> cookie_state \<Rightarrow> requirement list \<Rightarrow> error + cookie_state" where
  "requirement_loop c cname cookie_names st [] = Inr st"
| "requirement_loop c cname cookie_names st (r # rest) =
     (case requirement_step c cname cookie_names st r of
        Inl e \<Rightarrow> Inl e
      | Inr st' \<Rightarrow> requirement_loop c cname cookie_names st' rest)"

text \<open>The resonance tags of a cookie, with \<open>Resonance.NORMAL\<close> appended.\<close>

definition cookie_resonances :: "collaborators \<Rightarrow> cookie_doc \<Rightarrow> error + Resonance list" where
  "cookie_resonances c cookie =
     (case (case cookie_resonant cookie of None \<Rightarrow> [] | Some rs \<Rightarrow> rs) of
        r # rs \<Rightarrow>
          (case map_result Resonance_of (r # rs) of
             Inl e \<Rightarrow> Inl e
           | Inr res \<Rightarrow> Inr (res @ [NORMAL]))
      | [] \<Rightarrow>
          (case Cookie_get c (cookie_name cookie) of
             Some res \<Rightarrow> Inr (res @ [NORMAL])
           | None \<Rightarrow> Inr [NORMAL]))"

definition cookie_weight :: "document \<Rightarrow> cookie_doc \<Rightarrow> int option" where
  "cookie_weight requirements cookie =
     (case doc_leaderboard requirements of
        None \<Rightarrow> None
      | Some lb \<Rightarrow>
          (case map_of lb (cookie_name cookie) of
             None \<Rightarrow> None
           | Some w \<Rightarrow> if w \<noteq> 0 then Some w else None))"

definition cookie_parsed_tart :: "collaborators \<Rightarrow> cookie_doc \<Rightarrow> error + (Type \<times> decimal) option" where
  "cookie_parsed_tart c cookie =
     (case cookie_tart cookie of
        None \<Rightarrow> Inr None
      | Some [] \<Rightarrow> Inr None
      | Some [tart_line] \<Rightarrow>
          (case tart_line of
             LineStr s \<Rightarrow>
               (case Equality_parse c s of
                  None \<Rightarrow> Inl (CouldNotParseTart (cookie_name cookie) s)
                | Some tart_valid \<Rightarrow> Inr (Some tart_valid))
           | LineOther \<Rightarrow> Inr None)
      | Some _ \<Rightarrow> Inl (OnlyOneTart (cookie_name cookie)))"

fun biscuit_loop :: "collaborators \<Rightarrow> string \<Rightarrow> (Type \<times> decimal) list \<Rightarrow> line list
    \<Rightarrow> error + (Type \<times> decimal) list" where
  "biscuit_loop c cname parsed_biscuit [] = Inr parsed_biscuit"
| "biscuit_loop c cname parsed_biscuit (LineStr s # rest) =
     (case Equality_parse c s of
        None \<Rightarrow> Inl (CouldNotParseBiscuit cname s)
      | Some biscuit_valid \<Rightarrow> biscuit_loop c cname (parsed_biscuit @ [biscuit_valid]) rest)"
| "biscuit_loop c cname parsed_biscuit (LineOther # rest) = biscuit_loop c cname parsed_biscuit rest"

text \<open>
  The body of the loop over the cookies, up to the construction of the \<open>Requirements\<close>
  object, whose \<open>__init__\<close> raises when there is no objective. \<open>m\<close> is the accumulated
  vector \<open>mods\<close>, of which each cookie gets the copy \<open>cookie_mods\<close>.
\<close>

definition compile_cookie ::
    "collaborators \<Rightarrow> document \<Rightarrow> mods \<Rightarrow> string set \<Rightarrow> cookie_doc \<Rightarrow> error + Requirements" where
  "compile_cookie c requirements m cookie_names cookie =
     (case requirement_loop c (cookie_name cookie) cookie_names ([], None, m)
             (cookie_requirements cookie) of
        Inl e \<Rightarrow> Inl e
      | Inr (valid_reqs, obj, cookie_mods) \<Rightarrow>
     (case cookie_resonances c cookie of
        Inl e \<Rightarrow> Inl e
      | Inr res \<Rightarrow>
     (case cookie_parsed_tart c cookie of
        Inl e \<Rightarrow> Inl e
      | Inr parsed_tart \<Rightarrow>
     (case biscuit_loop c (cookie_name cookie) []
             (case cookie_biscuit cookie of None \<Rightarrow> [] | Some ls \<Rightarrow> ls) of
        Inl e \<Rightarrow> Inl e
      | Inr parsed_biscuit \<Rightarrow>
     (case obj of
        None \<Rightarrow> Inl (NoObjective (cookie_name cookie))
      | Some ob \<Rightarrow>
          Inr \<lparr>name = cookie_name cookie, valid = valid_reqs, objective = ob,
               mods = cookie_mods, resonances = res, tart = parsed_tart,
               biscuit = parsed_biscuit,
               weight = cookie_weight requirements cookie\<rparr>)))))"

fun compile_cookies ::
    "collaborators \<Rightarrow> document \<Rightarrow> mods \<Rightarrow> string set \<Rightarrow> Requirements list \<Rightarrow> cookie_doc list
     \<Rightarrow> error + Requirements list" where
  "compile_cookies c requirements m cookie_names cookies [] = Inr cookies"
| "compile_cookies c requirements m cookie_names cookies (cookie # rest) =
     (case compile_cookie c requirements m cookie_names cookie of
        Inl e \<Rightarrow> Inl e
      | Inr r \<Rightarrow>
          compile_cookies c requirements m (insert (cookie_name cookie) cookie_names)
            (cookies @ [r]) rest)"

definition from_yaml :: "collaborators \<Rightarrow> document \<Rightarrow> error + Requirements list" where
  "from_yaml c requirements =
     (case accumulate_mods requirements of
        Inl e \<Rightarrow> Inl e
      | Inr m \<Rightarrow>
          (case doc_cookies requirements of
             None \<Rightarrow> Inl KeyError
           | Some cks \<Rightarrow> compile_cookies c requirements m {} [] cks))"

section \<open>Requirements.realize\<close>

text \<open>\<open>merged_biscuit\<close>: \<open>None\<close> without biscuit lines, else the targets summed per stat.\<close>

definition merged_biscuit :: "Requirements \<Rightarrow> (Type \<times> decimal) list option" where
  "merged_biscuit self =
     (if biscuit self = [] then None
      else Some (foldl (\<lambda>merged (s, t).
                    case map_of merged s of
                      Some old \<Rightarrow> AList.update s (old + t) merged
                    | None \<Rightarrow> AList.update s t merged)
                  [] (biscuit self)))"

fun offset_by :: "validity \<Rightarrow> decimal \<Rightarrow> validity" where
  "offset_by (Range s low_target high_target) v =
     Range s (max (low_target - v) 0) (max (high_target - v) 0)"
| "offset_by (Equality s target) v = Equality s (max (target - v) 0)"
| "offset_by (Normal s opr target) v = Normal s opr (max (target - v) 0)"
| "offset_by (Relative s ck) v = Relative s ck"

text \<open>
  The property \<open>adjusted_valid\<close> of an object that has no \<open>_adjusted_valid\<close> attribute yet:
  a dictionary keyed by the name of the substat of each line of \<open>valid\<close>, then offset by
  the merged biscuit values.
\<close>

definition adjusted_valid :: "Requirements \<Rightarrow> validity list" where
  "adjusted_valid self =
     (let av = foldl (\<lambda>d ln. AList.update (substat_of ln) ln d) [] (valid self);
          av' = (case merged_biscuit self of
                   None \<Rightarrow> av
                 | Some mb \<Rightarrow>
                     foldl (\<lambda>d (s, v).
                        case map_of d s of
                          Some cur \<Rightarrow> AList.update s (offset_by cur v) d
                        | None \<Rightarrow> d)
                       av mb)
      in map snd av')"

text \<open>
  Modelled from the spec: \<open>__hash__\<close> and \<open>__eq__\<close> of the validity classes are in
  \<open>optimize/validity.py\<close>, which is not under \<open>src/\<close>. The spec says that two constraints
  are duplicates when they target the same stat with the same comparison direction, so
  the key of a constraint in the dictionary \<open>collapsed\<close> is its substat and its operator.
\<close>

definition valid_key :: "bound \<Rightarrow> Type \<times> string" where
  "valid_key v = (b_substat v, b_op v)"

text \<open>
  \<open>max(a, b, key=...)\<close> and \<open>min(a, b, key=...)\<close> return the first argument unless the
  second is strictly better.
\<close>

definition extreme :: "bound \<Rightarrow> bound \<Rightarrow> bound" where
  "extreme cur v =
     (if b_op v = ''>='' then (if b_target v > b_target cur then v else cur)
      else (if b_target v < b_target cur then v else cur))"

text \<open>The loop that fuzzes each constraint and collapses the duplicates.\<close>

fun collapse_loop :: "(bound \<Rightarrow> bound) \<Rightarrow> ((Type \<times> string) \<times> bound) list \<Rightarrow> bound list
    \<Rightarrow> ((Type \<times> string) \<times> bound) list" where
  "collapse_loop fz collapsed [] = collapsed"
| "collapse_loop fz collapsed (v0 # rest) =
     (let v = fz v0 in
      case map_of collapsed (valid_key v) of
        Some cur \<Rightarrow> collapse_loop fz (AList.update (valid_key v) (extreme cur v) collapsed) rest
      | None \<Rightarrow> collapse_loop fz (AList.update (valid_key v) v collapsed) rest)"


text \<open>\<open>matched[valid.substat][valid.op.str] = valid.target\<close>.\<close>

definition matched_bounds :: "bound list \<Rightarrow> (Type \<times> (string \<times> decimal) list) list" where
  "matched_bounds vs =
     foldl (\<lambda>matched v.
        AList.update (b_substat v)
          (AList.update (b_op v) (b_target v) (dict_get matched (b_substat v) [])) matched)
       [] vs"

text \<open>
  The contradiction check. The message of the \<open>ValueError\<close> reads \<open>bounds['>=']\<close>, so a
  negative upper bound without a lower bound ends in a \<open>KeyError\<close>.
\<close>

fun check_bounds :: "string \<Rightarrow> (Type \<times> (string \<times> decimal) list) list \<Rightarrow> error + unit" where
  "check_bounds nm [] = Inr ()"
| "check_bounds nm ((s, bounds) # rest) =
     (case map_of bounds ''<='' of
        None \<Rightarrow> check_bounds nm rest
      | Some hi \<Rightarrow>
          if hi < dict_get bounds ''>='' 0 then
            (case map_of bounds ''>='' of
               None \<Rightarrow> Inl KeyError
             | Some lo \<Rightarrow> Inl (ImpossibleRequirements nm lo (Type_value s) hi))
          else check_bounds nm rest)"

definition floor_reqs :: "bound list \<Rightarrow> bound list" where
  "floor_reqs av = filter (\<lambda>v. b_op v = ''>='') av"

definition ceiling_reqs :: "bound list \<Rightarrow> bound list" where
  "ceiling_reqs av = filter (\<lambda>v. b_op v = ''<='' \<and> b_target v \<noteq> 0) av"

text \<open>The tightening of the bounds of a Special objective.\<close>

definition tighten_min :: "special_bounds \<Rightarrow> bound \<Rightarrow> special_bounds" where
  "tighten_min bounds req =
     (case map_of bounds (b_substat req) of
        None \<Rightarrow> bounds
      | Some (mn, mx) \<Rightarrow> AList.update (b_substat req) (min mn (b_target req / 100), mx) bounds)"

definition tighten_max :: "special_bounds \<Rightarrow> bound \<Rightarrow> special_bounds" where
  "tighten_max bounds req =
     (case map_of bounds (b_substat req) of
        None \<Rightarrow> bounds
      | Some (mn, mx) \<Rightarrow> AList.update (b_substat req) (mn, min mx (b_target req / 100)) bounds)"

definition tighten :: "special_bounds \<Rightarrow> bound list \<Rightarrow> special_bounds" where
  "tighten bounds av = foldl tighten_max (foldl tighten_min bounds (floor_reqs av)) (ceiling_reqs av)"

fun tighten_objective :: "objective \<Rightarrow> bound list \<Rightarrow> objective" where
  "tighten_objective (EDMG m bounds) av = EDMG m (tighten bounds av)"
| "tighten_objective (Vitality m bounds) av = Vitality m (tighten bounds av)"
| "tighten_objective ob av = ob"

text \<open>
  \<open>realize\<close> on an object that has not been realized before. The result is the new value
  of \<open>adjusted_valid\<close> and the objective with its tightened bounds.
\<close>

definition realize ::
    "collaborators \<Rightarrow> Requirements \<Rightarrow> (string \<times> ToppingSet) list \<Rightarrow> error + bound list \<times> objective" where
  "realize c self cookie_sets =
     (case map_result (\<lambda>v. convert c v cookie_sets) (adjusted_valid self) of
        Inl e \<Rightarrow> Inl e
      | Inr converted \<Rightarrow>
          (let av = map snd (collapse_loop (fuzz c) [] (concat converted)) in
           case check_bounds (name self) (matched_bounds av) of
             Inl e \<Rightarrow> Inl e
           | Inr _ \<Rightarrow> Inr (av, tighten_objective (objective self) av)))"

text \<open>The tiers of the schedule of \<open>s\<close> whose required count the committed toppings already reach.\<close>

definition met_tiers :: "Topping list \<Rightarrow> Type \<Rightarrow> (nat \<times> decimal) list" where
  "met_tiers combo s =
     (case INFO_combos s of
        None \<Rightarrow> []
      | Some combos \<Rightarrow> filter (\<lambda>(req, bonus). req \<le> matching_count combo s) combos)"

section \<open>Sample toppings\<close>

definition dmgres_topping :: "nat \<Rightarrow> Topping" where
  "dmgres_topping i = \<lparr>ident = i, resonance = None, flavor = DMGRES, substats = [(DMGRES, Dec 3)]\<rparr>"

definition atk_topping :: "nat \<Rightarrow> Topping" where
  "atk_topping i = \<lparr>ident = i, resonance = None, flavor = ATK, substats = [(ATK, Dec 9)]\<rparr>"

section \<open>Notions used in the statements\<close>








text \<open>The entries of the bound's table are tiers met by the committed toppings.\<close>

definition credited :: "Topping list \<Rightarrow> Type list \<Rightarrow> set_bonuses \<Rightarrow> bool" where
  "credited combo stats best \<longleftrightarrow>
     (\<forall>req d s b. map_of best req = Some d \<longrightarrow> (s, b) \<in> set d \<longrightarrow>
        s \<in> set stats \<and> (req, b) \<in> set (met_tiers combo s))"


section \<open>Sample collaborators and documents\<close>

definition crit_topping :: "nat \<Rightarrow> Topping" where
  "crit_topping i = \<lparr>ident = i, resonance = None, flavor = CRIT, substats = [(CRIT, Dec 9)]\<rparr>"

definition hp_topping :: "nat \<Rightarrow> Topping" where
  "hp_topping i = \<lparr>ident = i, resonance = None, flavor = HP, substats = [(HP, Dec 9)]\<rparr>"

text \<open>
  An instance of the collaborators, used only to evaluate the theorems at concrete
  documents: it parses three fixed lines, converts a constraint into its plain bounds and
  fuzzes nothing. The theorems themselves hold for every instance.
\<close>

definition sample_collab :: collaborators where
  "sample_collab =
     \<lparr>Normal_parse = (\<lambda>s. if s = ''ATK >= 50'' then Some (Normal ATK ''>='' 50)
                          else if s = ''ATK <= 30'' then Some (Normal ATK ''<='' 30)
                          else None),
      Range_parse = (\<lambda>s. None),
      Equality_parse = (\<lambda>s. None),
      Relative_parse = (\<lambda>s. if s = ''ATK >= Alpha'' then Some (Relative ATK ''Alpha'') else None),
      Cookie_get = (\<lambda>n. None),
      Special_bounds = (\<lambda>t m. []),
      convert = (\<lambda>v cs. case v of
                    Normal s opr t \<Rightarrow> Inr [\<lparr>b_substat = s, b_op = opr, b_target = t\<rparr>]
                  | Range s lo hi \<Rightarrow> Inr [\<lparr>b_substat = s, b_op = ''>='', b_target = lo\<rparr>,
                                          \<lparr>b_substat = s, b_op = ''<='', b_target = hi\<rparr>]
                  | Equality s t \<Rightarrow> Inr [\<lparr>b_substat = s, b_op = ''>='', b_target = t\<rparr>,
                                         \<lparr>b_substat = s, b_op = ''<='', b_target = t\<rparr>]
                  | Relative s ck \<Rightarrow> Inr []),
      fuzz = (\<lambda>v. v)\<rparr>"

definition plain_cookie :: "string \<Rightarrow> requirement list \<Rightarrow> cookie_doc" where
  "plain_cookie n reqs =
     \<lparr>cookie_name = n, cookie_requirements = reqs, cookie_resonant = None,
      cookie_tart = None, cookie_biscuit = None\<rparr>"

definition plain_document :: "cookie_doc list \<Rightarrow> document" where
  "plain_document cks = \<lparr>doc_modifiers = None, doc_leaderboard = None, doc_cookies = Some cks\<rparr>"

definition max_clause :: "string \<Rightarrow> objective_doc" where
  "max_clause s = \<lparr>obj_max = Some s, obj_substats = None, obj_deltas = []\<rparr>"

definition base_twice_doc :: document where
  "base_twice_doc =
     \<lparr>doc_modifiers = Some [(''ATK'', [\<lparr>buff_source = ''Base'', buff_value = 100\<rparr>])],
      doc_leaderboard = None, doc_cookies = Some []\<rparr>"

definition base_and_guild_doc :: document where
  "base_and_guild_doc =
     \<lparr>doc_modifiers = Some [(''ATK'', [\<lparr>buff_source = ''Base'', buff_value = 100\<rparr>,
                                      \<lparr>buff_source = ''Guild'', buff_value = 5\<rparr>])],
      doc_leaderboard = None, doc_cookies = Some []\<rparr>"



definition contradictory_doc :: document where
  "contradictory_doc = plain_document
     [plain_cookie ''Alpha'' [ReqStr ''ATK >= 50'', ReqStr ''ATK <= 30'', ReqDict (max_clause ''ATK'')]]"





definition plain_requirements :: "string \<Rightarrow> validity list \<Rightarrow> Requirements" where
  "plain_requirements n vs =
     \<lparr>name = n, valid = vs, objective = Objective ATK,
      mods = [(ATK, 100), (CRIT, 13), (CRIT_DMG, 190), (HP, 100)],
      resonances = [NORMAL], tart = None, biscuit = [], weight = None\<rparr>"



section \<open>Properties of the item model\<close>

lemma INFO_combos_increasing:
  "INFO_combos s = Some combos \<Longrightarrow> sorted_wrt (<) (map fst combos)"
  by (cases s) auto

lemma INFO_combos_positive:
  "INFO_combos s = Some combos \<Longrightarrow> (req, bonus) \<in> set combos \<Longrightarrow> 0 < bonus"
  by (cases s) auto

lemma set_effect_scan_find:
  "set_effect_scan xs n = (case find (\<lambda>(r, b). r \<le> n) xs of None \<Rightarrow> (0, 0) | Some t \<Rightarrow> t)"
  by (induction xs n rule: set_effect_scan.induct) auto

lemma set_effect_scan_highest:
  "sorted_wrt (>) (map fst xs) \<Longrightarrow> \<exists>t\<in>set xs. fst t \<le> n \<Longrightarrow>
   set_effect_scan xs n \<in> set xs \<and> fst (set_effect_scan xs n) \<le> n \<and>
   (\<forall>t\<in>set xs. fst t \<le> n \<longrightarrow> fst t \<le> fst (set_effect_scan xs n))"
proof (induction xs n rule: set_effect_scan.induct)
  case (1 n)
  then show ?case by simp
next
  case (2 required_count set_bonus rest n)
  show ?case
  proof (cases "required_count \<le> n")
    case True
    with 2(2) show ?thesis by (auto intro: less_imp_le)
  next
    case False
    with 2(3) have ex: "\<exists>t\<in>set rest. fst t \<le> n" by auto
    from 2(2) have "sorted_wrt (>) (map fst rest)" by simp
    from 2(1)[OF _ this ex] False show ?thesis by auto
  qed
qed

lemma set_update_subset: "set (AList.update k v xs) \<subseteq> insert (k, v) (set xs)"
  by (induction xs) auto

text \<open>
  C8: for a stat with a schedule in \<open>INFO\<close>, \<open>set_effect\<close> scans the schedule from the
  richest tier down and returns the first tier whose required count is reached by the
  number of members whose primary stat is the queried one; the schedules of \<open>INFO\<close>
  have increasing thresholds, so this is the met tier of highest threshold; when no tier
  is met the result is \<open>(0, 0)\<close>. With three such members and the schedule
  \<open>[(2,3),(3,7),(5,8),(6,10)]\<close> the result is \<open>(3, 7)\<close>.
\<close>

theorem set_effect_highest_met_tier:
  assumes "INFO_combos s = Some combos" and "n = matching_count (toppings self) s"
  shows "set_effect self s =
           Inr (case find (\<lambda>(r, b). r \<le> n) (rev combos) of None \<Rightarrow> (0, 0) | Some t \<Rightarrow> t)
       \<and> ((\<exists>t\<in>set combos. fst t \<le> n) \<longrightarrow>
            (\<exists>r b. set_effect self s = Inr (r, b) \<and> (r, b) \<in> set combos \<and> r \<le> n \<and>
                   (\<forall>t\<in>set combos. fst t \<le> n \<longrightarrow> fst t \<le> r)))
       \<and> ((\<forall>t\<in>set combos. n < fst t) \<longrightarrow> set_effect self s = Inr (0, 0))
       \<and> (combos = [(2, 3), (3, 7), (5, 8), (6, 10)] \<and> n = 3 \<longrightarrow> set_effect self s = Inr (3, 7))"
proof -
  have eq: "set_effect self s = Inr (set_effect_scan (rev combos) n)"
    using assms by (simp add: set_effect_def)
  have c1: "set_effect self s =
           Inr (case find (\<lambda>(r, b). r \<le> n) (rev combos) of None \<Rightarrow> (0, 0) | Some t \<Rightarrow> t)"
    by (simp only: eq set_effect_scan_find)
  have srt: "sorted_wrt (>) (map fst (rev combos))"
    using INFO_combos_increasing[OF assms(1)] by (simp add: sorted_wrt_rev flip: rev_map)
  have c2: "\<exists>r b. set_effect self s = Inr (r, b) \<and> (r, b) \<in> set combos \<and> r \<le> n \<and>
                   (\<forall>t\<in>set combos. fst t \<le> n \<longrightarrow> fst t \<le> r)"
    if ex: "\<exists>t\<in>set combos. fst t \<le> n"
  proof -
    from ex have "\<exists>t\<in>set (rev combos). fst t \<le> n" by simp
    from set_effect_scan_highest[OF srt this]
    have h: "set_effect_scan (rev combos) n \<in> set combos"
          "fst (set_effect_scan (rev combos) n) \<le> n"
          "\<forall>t\<in>set combos. fst t \<le> n \<longrightarrow> fst t \<le> fst (set_effect_scan (rev combos) n)"
      by simp_all
    obtain r b where rb: "set_effect_scan (rev combos) n = (r, b)" by (cases "set_effect_scan (rev combos) n")
    with h eq show ?thesis by auto
  qed
  have c3: "set_effect self s = Inr (0, 0)" if no: "\<forall>t\<in>set combos. n < fst t"
  proof -
    have "find (\<lambda>(r, b). r \<le> n) (rev combos) = None"
      using no by (auto simp: find_None_iff)
    with c1 show ?thesis by simp
  qed
  have c4: "set_effect self s = Inr (3, 7)" if "combos = [(2, 3), (3, 7), (5, 8), (6, 10)] \<and> n = 3"
    using that eq by simp
  from c1 c2 c3 c4 show ?thesis by blast
qed

theorem set_effect_highest_met_tier_witness:
  "INFO_combos DMGRES = Some [(2, 3), (3, 7), (5, 8), (6, 10)]
   \<and> matching_count [dmgres_topping 0, atk_topping 1, dmgres_topping 2, dmgres_topping 3, atk_topping 4] DMGRES = 3
   \<and> set_effect \<lparr>toppings = [dmgres_topping 0, atk_topping 1, dmgres_topping 2, dmgres_topping 3, atk_topping 4]\<rparr> DMGRES = Inr (3, 7)"
proof -
  have a: "INFO_combos DMGRES = Some [(2, 3), (3, 7), (5, 8), (6, 10)]" by simp
  have b: "3 = matching_count (toppings \<lparr>toppings = [dmgres_topping 0, atk_topping 1, dmgres_topping 2, dmgres_topping 3, atk_topping 4]\<rparr>) DMGRES"
    by (simp add: matching_count_def dmgres_topping_def atk_topping_def)
  from set_effect_highest_met_tier[OF a b] a b show ?thesis by simp
qed

text \<open>
  C9, as stated, fails: two toppings constructed separately (different allocations) from
  the same substats and the same resonance are equal under \<open>__eq__\<close>.
\<close>

theorem Topping_eq_distinct_allocations:
  "Topping_init 1 [(''ATK'', Dec 9), (''CRIT%'', Dec 2)] (Some MOONKISSED)
     = Inr \<lparr>ident = 1, resonance = Some MOONKISSED, flavor = ATK, substats = [(ATK, Dec 9), (CRIT, Dec 2)]\<rparr>
   \<and> Topping_init 2 [(''ATK'', Dec 9), (''CRIT%'', Dec 2)] (Some MOONKISSED)
     = Inr \<lparr>ident = 2, resonance = Some MOONKISSED, flavor = ATK, substats = [(ATK, Dec 9), (CRIT, Dec 2)]\<rparr>
   \<and> Topping_eq \<lparr>ident = 1, resonance = Some MOONKISSED, flavor = ATK, substats = [(ATK, Dec 9), (CRIT, Dec 2)]\<rparr>
                \<lparr>ident = 2, resonance = Some MOONKISSED, flavor = ATK, substats = [(ATK, Dec 9), (CRIT, Dec 2)]\<rparr>"
  by (simp add: Topping_init_def Type_of_def all_Types_def Topping_eq_def)

text \<open>
  C9, amended: equality of toppings is by content. Two toppings are equal exactly when
  their substat lists and their resonances are equal, so two toppings constructed
  separately from the same arguments are equal, and a topping equals itself. Only the
  hash is by allocation: two toppings have the same hash exactly when they are the same
  allocation.
\<close>

theorem Topping_eq_by_content:
  "(Topping_init i raw res = Inr a \<and> Topping_init j raw res = Inr b \<longrightarrow> Topping_eq a b)
   \<and> (Topping_eq a b \<longleftrightarrow> substats a = substats b \<and> resonance a = resonance b)
   \<and> Topping_eq a a
   \<and> (Topping_hash a = Topping_hash b \<longleftrightarrow> ident a = ident b)"
  by (auto simp: Topping_init_def Topping_eq_def Topping_hash_def split: list.splits sum.splits)

theorem Topping_eq_by_content_witness:
  "Topping_init 1 [(''ATK'', Dec 9)] None = Inr (atk_topping 1)
   \<and> Topping_init 2 [(''ATK'', Dec 9)] None = Inr (atk_topping 2)
   \<and> Topping_eq (atk_topping 1) (atk_topping 2)
   \<and> Topping_hash (atk_topping 1) \<noteq> Topping_hash (atk_topping 2)"
proof -
  have a: "Topping_init 1 [(''ATK'', Dec 9)] None = Inr (atk_topping 1)"
    by (simp add: Topping_init_def Type_of_def all_Types_def atk_topping_def)
  have b: "Topping_init 2 [(''ATK'', Dec 9)] None = Inr (atk_topping 2)"
    by (simp add: Topping_init_def Type_of_def all_Types_def atk_topping_def)
  have c: "ident (atk_topping 1) \<noteq> ident (atk_topping 2)" by (simp add: atk_topping_def)
  from Topping_eq_by_content[of 1 "[(''ATK'', Dec 9)]" None "atk_topping 1" 2 "atk_topping 2"] a b c
  show ?thesis by simp
qed

section \<open>Properties of the set-bonus bound\<close>

lemma record_tiers_credited:
  assumes "INFO_combos s = Some combos" "s \<in> set stats"
  shows "set tiers \<subseteq> set combos \<Longrightarrow> credited combo stats best \<Longrightarrow>
         record_tiers best s (matching_count combo s) tiers = Inr best' \<Longrightarrow>
         credited combo stats best'"
proof (induction tiers arbitrary: best)
  case Nil
  then show ?case by simp
next
  case (Cons t tiers)
  obtain req bonus where t: "t = (req, bonus)" by (cases t)
  show ?case
  proof (cases "req \<le> matching_count combo s")
    case False
    with Cons t show ?thesis by simp
  next
    case True
    with Cons.prems(3) t obtain d where d: "map_of best req = Some d"
      and rec: "record_tiers (AList.update req (AList.update s (max (dict_get d s 0) bonus) d) best)
                  s (matching_count combo s) tiers = Inr best'"
      by (auto split: option.splits)
    from Cons.prems(1) t have mem: "(req, bonus) \<in> set combos" by simp
    with assms(1) True have met: "(req, bonus) \<in> set (met_tiers combo s)"
      by (simp add: met_tiers_def)
    have pos: "0 < bonus" using INFO_combos_positive[OF assms(1) mem] .
    have val: "(req, max (dict_get d s 0) bonus) \<in> set (met_tiers combo s)"
    proof (cases "map_of d s")
      case None
      with pos have "max (dict_get d s 0) bonus = bonus" by (simp add: dict_get_def)
      with met show ?thesis by simp
    next
      case (Some v)
      then have "(s, v) \<in> set d" by (rule map_of_SomeD)
      with Cons.prems(2) d have "(req, v) \<in> set (met_tiers combo s)"
        unfolding credited_def by blast
      moreover have "max (dict_get d s 0) bonus = v \<or> max (dict_get d s 0) bonus = bonus"
        using Some by (auto simp: dict_get_def max_def)
      ultimately show ?thesis using met by auto
    qed
    have "credited combo stats (AList.update req (AList.update s (max (dict_get d s 0) bonus) d) best)"
      unfolding credited_def
    proof (intro allI impI)
      fix req' d' s' b'
      assume look: "map_of (AList.update req (AList.update s (max (dict_get d s 0) bonus) d) best) req' = Some d'"
        and el: "(s', b') \<in> set d'"
      show "s' \<in> set stats \<and> (req', b') \<in> set (met_tiers combo s')"
      proof (cases "req' = req")
        case True
        with look have "d' = AList.update s (max (dict_get d s 0) bonus) d"
          by (simp add: update_conv')
        with el set_update_subset[of s "max (dict_get d s 0) bonus" d]
        have "(s', b') = (s, max (dict_get d s 0) bonus) \<or> (s', b') \<in> set d" by auto
        then show ?thesis
        proof
          assume "(s', b') = (s, max (dict_get d s 0) bonus)"
          with val assms(2) True show ?thesis by simp
        next
          assume "(s', b') \<in> set d"
          with Cons.prems(2) d True show ?thesis unfolding credited_def by blast
        qed
      next
        case False
        with look have "map_of best req' = Some d'" by (simp add: update_conv')
        with Cons.prems(2) el show ?thesis unfolding credited_def by blast
      qed
    qed
    moreover from Cons.prems(1) have "set tiers \<subseteq> set combos" by simp
    ultimately show ?thesis using Cons.IH rec by blast
  qed
qed

lemma record_substats_credited:
  "set ss \<subseteq> set stats \<Longrightarrow> credited combo stats best \<Longrightarrow>
   record_substats best combo ss = Inr best' \<Longrightarrow> credited combo stats best'"
proof (induction ss arbitrary: best)
  case Nil
  then show ?case by simp
next
  case (Cons s ss)
  from Cons.prems(3) obtain combos best1 where
      c: "INFO_combos s = Some combos"
    and r1: "record_tiers best s (matching_count combo s) combos = Inr best1"
    and r2: "record_substats best1 combo ss = Inr best'"
    by (auto split: option.splits sum.splits)
  from Cons.prems(1) have s: "s \<in> set stats" and ss: "set ss \<subseteq> set stats" by auto
  have "credited combo stats best1"
    using record_tiers_credited[OF c s _ Cons.prems(2) r1] by simp
  with Cons.IH ss r2 show ?case by blast
qed

lemma inner_2_3:
  fixes bonus2 :: decimal and s2 :: Type
  defines "f \<equiv> (\<lambda>acc' (s3, bonus3). if s2 \<noteq> s3 then max acc' (bonus2 + bonus3) else acc')"
  shows "foldl f acc d3 = acc \<or> (\<exists>s3 b3. (s3, b3) \<in> set d3 \<and> s2 \<noteq> s3 \<and> foldl f acc d3 = bonus2 + b3)"
proof (induction d3 arbitrary: acc)
  case Nil
  then show ?case by simp
next
  case (Cons p d3)
  obtain s3 b3 where p: "p = (s3, b3)" by (cases p)
  have step: "foldl f acc (p # d3) = foldl f (f acc p) d3" by simp
  have fp: "f acc p = acc \<or> (s2 \<noteq> s3 \<and> f acc p = bonus2 + b3)"
    unfolding f_def p by (simp add: max_def)
  from Cons.IH[of "f acc p"]
  show ?case
  proof
    assume "foldl f (f acc p) d3 = f acc p"
    with fp step p show ?thesis by auto
  next
    assume "\<exists>s3 b3. (s3, b3) \<in> set d3 \<and> s2 \<noteq> s3 \<and> foldl f (f acc p) d3 = bonus2 + b3"
    then obtain s3' b3' where "(s3', b3') \<in> set d3" "s2 \<noteq> s3'" "foldl f (f acc p) d3 = bonus2 + b3'"
      by blast
    with step show ?thesis by auto
  qed
qed

lemma outer_2_3:
  fixes d3 :: "(Type \<times> decimal) list"
  defines "g \<equiv> (\<lambda>acc (s2, bonus2).
        foldl (\<lambda>acc' (s3, bonus3). if s2 \<noteq> s3 then max acc' (bonus2 + bonus3) else acc') acc d3)"
  shows "foldl g acc d2 = acc
   \<or> (\<exists>s2 b2 s3 b3. (s2, b2) \<in> set d2 \<and> (s3, b3) \<in> set d3 \<and> s2 \<noteq> s3 \<and> foldl g acc d2 = b2 + b3)"
proof (induction d2 arbitrary: acc)
  case Nil
  then show ?case by simp
next
  case (Cons p d2)
  obtain s2 b2 where p: "p = (s2, b2)" by (cases p)
  have step: "foldl g acc (p # d2) = foldl g (g acc p) d2" by simp
  have gp: "g acc p = acc \<or> (\<exists>s3 b3. (s3, b3) \<in> set d3 \<and> s2 \<noteq> s3 \<and> g acc p = b2 + b3)"
    unfolding g_def p prod.case by (rule inner_2_3)
  from Cons.IH[of "g acc p"]
  show ?case
  proof
    assume a: "foldl g (g acc p) d2 = g acc p"
    from gp show ?thesis
    proof
      assume "g acc p = acc"
      with a step show ?thesis by simp
    next
      assume "\<exists>s3 b3. (s3, b3) \<in> set d3 \<and> s2 \<noteq> s3 \<and> g acc p = b2 + b3"
      then obtain s3 b3 where "(s3, b3) \<in> set d3" "s2 \<noteq> s3" "g acc p = b2 + b3" by blast
      with a step p have "(s2, b2) \<in> set (p # d2) \<and> (s3, b3) \<in> set d3 \<and> s2 \<noteq> s3 \<and> foldl g acc (p # d2) = b2 + b3"
        by simp
      then show ?thesis by blast
    qed
  next
    assume "\<exists>s2 b2 s3 b3. (s2, b2) \<in> set d2 \<and> (s3, b3) \<in> set d3 \<and> s2 \<noteq> s3 \<and> foldl g (g acc p) d2 = b2 + b3"
    then obtain s2' b2' s3 b3 where "(s2', b2') \<in> set d2" "(s3, b3) \<in> set d3" "s2' \<noteq> s3"
        "foldl g (g acc p) d2 = b2' + b3" by blast
    with step have "(s2', b2') \<in> set (p # d2) \<and> (s3, b3) \<in> set d3 \<and> s2' \<noteq> s3 \<and> foldl g acc (p # d2) = b2' + b3"
      by simp
    then show ?thesis by blast
  qed
qed

lemma best_2_3_cases:
  "best_2_3 d2 d3 = 0 \<or>
   (\<exists>s2 b2 s3 b3. (s2, b2) \<in> set d2 \<and> (s3, b3) \<in> set d3 \<and> s2 \<noteq> s3 \<and> best_2_3 d2 d3 = b2 + b3)"
  unfolding best_2_3_def by (rule outer_2_3)

lemma foldl_max_mem: "foldl max (v::rat) vs \<in> insert v (set vs)"
  by (induction vs arbitrary: v) (auto simp: max_def)

lemma max_default_cases:
  "max_default (map snd d) = 0 \<or> (\<exists>s b. (s, b) \<in> set d \<and> max_default (map snd d) = b)"
proof (cases d)
  case Nil
  then show ?thesis by (simp add: max_default_def)
next
  case (Cons p rest)
  have "foldl max (snd p) (map snd rest) \<in> insert (snd p) (set (map snd rest))"
    by (rule foldl_max_mem)
  moreover have "max_default (map snd d) = foldl max (snd p) (map snd rest)"
    using Cons by (simp add: max_default_def)
  ultimately have "max_default (map snd d) \<in> snd ` set d" using Cons by simp
  then obtain q where "q \<in> set d" "max_default (map snd d) = snd q" by blast
  then have "(fst q, snd q) \<in> set d \<and> max_default (map snd d) = snd q" by simp
  then show ?thesis by blast
qed

text \<open>
  C10: the result of \<open>best_possible_set_effect\<close> does not depend on
  \<open>non_match_count\<close>, and a returned bound is zero, the bonus of one tier that the
  committed toppings already meet for a candidate stat, or the sum of a met 2-piece bonus
  and a met 3-piece bonus of two different candidate stats.
\<close>

theorem best_possible_set_effect_ignores_non_match_count:
  "best_possible_set_effect combo stats n1 = best_possible_set_effect combo stats n2
   \<and> (best_possible_set_effect combo stats n1 = Inr v \<longrightarrow>
        v = 0
        \<or> (\<exists>s\<in>set stats. \<exists>req. (req, v) \<in> set (met_tiers combo s))
        \<or> (\<exists>s2\<in>set stats. \<exists>s3\<in>set stats. \<exists>b2 b3. s2 \<noteq> s3
              \<and> (2, b2) \<in> set (met_tiers combo s2) \<and> (3, b3) \<in> set (met_tiers combo s3)
              \<and> v = b2 + b3))"
proof -
  have indep: "best_possible_set_effect combo stats n1 = best_possible_set_effect combo stats n2"
    by (simp add: best_possible_set_effect_def)
  have tiers: "v = 0
        \<or> (\<exists>s\<in>set stats. \<exists>req. (req, v) \<in> set (met_tiers combo s))
        \<or> (\<exists>s2\<in>set stats. \<exists>s3\<in>set stats. \<exists>b2 b3. s2 \<noteq> s3
              \<and> (2, b2) \<in> set (met_tiers combo s2) \<and> (3, b3) \<in> set (met_tiers combo s3)
              \<and> v = b2 + b3)"
    if res: "best_possible_set_effect combo stats n1 = Inr v"
  proof -
    from res obtain best d2 d3 d5 d6 where
        rs: "record_substats [(2, []), (3, []), (5, []), (6, [])] combo stats = Inr best"
      and l2: "map_of best 2 = Some d2" and l3: "map_of best 3 = Some d3"
      and l5: "map_of best 5 = Some d5" and l6: "map_of best 6 = Some d6"
      and v: "v = max (best_2_3 d2 d3)
                     (max (max_default (map snd d2))
                       (max (max_default (map snd d3))
                         (max (max_default (map snd d5)) (max_default (map snd d6)))))"
      by (auto simp: best_possible_set_effect_def split: sum.splits option.splits)
    have "credited combo stats [(2, []), (3, []), (5, []), (6, [])]"
      by (simp add: credited_def)
    from record_substats_credited[OF subset_refl this rs]
    have cr: "credited combo stats best" .
    have single: "x = 0 \<or> (\<exists>s\<in>set stats. \<exists>req. (req, x) \<in> set (met_tiers combo s))"
      if "map_of best k = Some d" "x = max_default (map snd d)" for k d x
    proof -
      from max_default_cases[of d] that(2)
      have "x = 0 \<or> (\<exists>s. (s, x) \<in> set d)" by auto
      with cr that(1) show ?thesis unfolding credited_def by blast
    qed
    have pair: "best_2_3 d2 d3 = 0 \<or> (\<exists>s2\<in>set stats. \<exists>s3\<in>set stats. \<exists>b2 b3. s2 \<noteq> s3
              \<and> (2, b2) \<in> set (met_tiers combo s2) \<and> (3, b3) \<in> set (met_tiers combo s3)
              \<and> best_2_3 d2 d3 = b2 + b3)"
    proof -
      from best_2_3_cases[of d2 d3] show ?thesis
      proof
        assume "best_2_3 d2 d3 = 0" then show ?thesis by simp
      next
        assume "\<exists>s2 b2 s3 b3. (s2, b2) \<in> set d2 \<and> (s3, b3) \<in> set d3 \<and> s2 \<noteq> s3 \<and> best_2_3 d2 d3 = b2 + b3"
        then obtain s2 b2 s3 b3 where h: "(s2, b2) \<in> set d2" "(s3, b3) \<in> set d3" "s2 \<noteq> s3"
            "best_2_3 d2 d3 = b2 + b3" by blast
        from cr l2 h(1) have a: "s2 \<in> set stats" "(2, b2) \<in> set (met_tiers combo s2)"
          unfolding credited_def by blast+
        from cr l3 h(2) have b: "s3 \<in> set stats" "(3, b3) \<in> set (met_tiers combo s3)"
          unfolding credited_def by blast+
        from a b h(3,4) show ?thesis by blast
      qed
    qed
    have "v = best_2_3 d2 d3 \<or> v = max_default (map snd d2) \<or> v = max_default (map snd d3)
          \<or> v = max_default (map snd d5) \<or> v = max_default (map snd d6)"
      unfolding v by (simp add: max_def)
    then show ?thesis
      using pair single[OF l2 refl] single[OF l3 refl] single[OF l5 refl] single[OF l6 refl]
      by metis
  qed
  from indep tiers show ?thesis by blast
qed

theorem best_possible_set_effect_ignores_non_match_count_witness:
  "best_possible_set_effect [atk_topping 0, atk_topping 1, crit_topping 2, crit_topping 3, crit_topping 4] [ATK, CRIT] 0 = Inr 10
   \<and> best_possible_set_effect [atk_topping 0, atk_topping 1, crit_topping 2, crit_topping 3, crit_topping 4] [ATK, CRIT] 0
     = best_possible_set_effect [atk_topping 0, atk_topping 1, crit_topping 2, crit_topping 3, crit_topping 4] [ATK, CRIT] 3
   \<and> (2, 4) \<in> set (met_tiers [atk_topping 0, atk_topping 1, crit_topping 2, crit_topping 3, crit_topping 4] ATK)
   \<and> (3, 6) \<in> set (met_tiers [atk_topping 0, atk_topping 1, crit_topping 2, crit_topping 3, crit_topping 4] CRIT)"
proof -
  have "best_possible_set_effect [atk_topping 0, atk_topping 1, crit_topping 2, crit_topping 3, crit_topping 4] [ATK, CRIT] 0 = Inr 10"
    by (simp add: best_possible_set_effect_def max_default_def best_2_3_def matching_count_def
        atk_topping_def crit_topping_def dict_get_def)
  moreover have "(2, 4) \<in> set (met_tiers [atk_topping 0, atk_topping 1, crit_topping 2, crit_topping 3, crit_topping 4] ATK)"
    by (simp add: met_tiers_def matching_count_def atk_topping_def crit_topping_def)
  moreover have "(3, 6) \<in> set (met_tiers [atk_topping 0, atk_topping 1, crit_topping 2, crit_topping 3, crit_topping 4] CRIT)"
    by (simp add: met_tiers_def matching_count_def atk_topping_def crit_topping_def)
  ultimately show ?thesis
    using best_possible_set_effect_ignores_non_match_count
      [of "[atk_topping 0, atk_topping 1, crit_topping 2, crit_topping 3, crit_topping 4]" "[ATK, CRIT]" 0 3 10]
    by simp
qed

text \<open>
  C1 does not hold of the code. With nothing committed, the candidate stat ATK and five
  free slots the bound is 0, while the completion by five ATK toppings earns the 5-piece
  bonus 10. On a full set of two ATK, two CRIT and one HP topping the bound for the
  candidates ATK and CRIT is 4, while the set earns 4 + 4.
\<close>

theorem best_possible_set_effect_underestimates:
  "best_possible_set_effect [] [ATK] 5 = Inr 0
   \<and> set_effect \<lparr>toppings = [atk_topping 0, atk_topping 1, atk_topping 2, atk_topping 3, atk_topping 4]\<rparr> ATK = Inr (5, 10)
   \<and> best_possible_set_effect [atk_topping 0, atk_topping 1, crit_topping 2, crit_topping 3, hp_topping 4] [ATK, CRIT] 0 = Inr 4
   \<and> set_effect \<lparr>toppings = [atk_topping 0, atk_topping 1, crit_topping 2, crit_topping 3, hp_topping 4]\<rparr> ATK = Inr (2, 4)
   \<and> set_effect \<lparr>toppings = [atk_topping 0, atk_topping 1, crit_topping 2, crit_topping 3, hp_topping 4]\<rparr> CRIT = Inr (2, 4)"
  by (simp add: best_possible_set_effect_def max_default_def best_2_3_def matching_count_def
        atk_topping_def crit_topping_def hp_topping_def dict_get_def set_effect_def)

section \<open>Properties of normalization and accumulation\<close>


lemma default_mods_eq: "default_mods = [(ATK, 100), (CRIT, 13), (CRIT_DMG, 190), (HP, 100)]"
  by (simp add: default_mods_def DEFAULT_MODIFIERS_def mods_add_def dict_get_def)









lemmas eval_defs =
  plain_document_def plain_cookie_def max_clause_def from_yaml_def
  accumulate_mods_def default_mods_eq compile_cookie_def parse_objective_requirement_def
  parse_valid_requirement_def Type_of_def all_Types_def add_deltas_def mods_add_def
  cookie_resonances_def cookie_parsed_tart_def cookie_weight_def sample_collab_def dict_get_def
  Let_def

text \<open>
  C5 does not hold of the code. When every declared modifier of the document repeats a
  baseline source, the filtered section is empty and \<open>sanitize\<close> leaves the section as
  it was: the entry \<open>Base\<close> of ATK stays, and the accumulation counts it twice (200).
  When another entry survives, the duplicate is removed.
\<close>

theorem sanitize_keeps_baseline_duplicate:
  "sanitize base_twice_doc False = Inr base_twice_doc
   \<and> doc_modifiers base_twice_doc = Some [(''ATK'', [\<lparr>buff_source = ''Base'', buff_value = 100\<rparr>])]
   \<and> ''Base'' \<in> fst ` set (dict_get DEFAULT_MODIFIERS ATK [])
   \<and> accumulate_mods base_twice_doc = Inr [(ATK, 200), (CRIT, 13), (CRIT_DMG, 190), (HP, 100)]
   \<and> sanitize base_and_guild_doc False
       = Inr (base_and_guild_doc\<lparr>doc_modifiers :=
                Some [(''ATK'', [\<lparr>buff_source = ''Guild'', buff_value = 5\<rparr>])]\<rparr>)"
  by (simp add: sanitize_def base_twice_doc_def base_and_guild_doc_def DEFAULT_MODIFIERS_def
        eval_defs)


















lemma from_yaml_contradictory_doc:
  "from_yaml sample_collab contradictory_doc
     = Inr [plain_requirements ''Alpha'' [Normal ATK ''>='' 50, Normal ATK ''<='' 30]]"
  by (simp add: contradictory_doc_def plain_requirements_def eval_defs)














section \<open>Properties of realize\<close>




















text \<open>
  C2 does not hold of the code. \<open>adjusted_valid\<close> keys the constraints by the name of
  their substat, so of the two lines \<open>ATK >= 50\<close> and \<open>ATK <= 30\<close> only the last one
  reaches \<open>realize\<close>, whatever the collaborators do: \<open>realize\<close> returns what it returns
  for the single line \<open>ATK <= 30\<close>, and with the sample collaborators it returns
  without error.
\<close>

theorem realize_misses_contradiction:
  "adjusted_valid (self\<lparr>valid := [Normal ATK ''>='' 50, Normal ATK ''<='' 30]\<rparr>)
     = adjusted_valid (self\<lparr>valid := [Normal ATK ''<='' 30]\<rparr>)
   \<and> realize c (self\<lparr>valid := [Normal ATK ''>='' 50, Normal ATK ''<='' 30]\<rparr>) cookie_sets
     = realize c (self\<lparr>valid := [Normal ATK ''<='' 30]\<rparr>) cookie_sets
   \<and> from_yaml sample_collab contradictory_doc
     = Inr [plain_requirements ''Alpha'' [Normal ATK ''>='' 50, Normal ATK ''<='' 30]]
   \<and> adjusted_valid (plain_requirements ''Alpha'' [Normal ATK ''>='' 50, Normal ATK ''<='' 30])
     = [Normal ATK ''<='' 30]
   \<and> realize sample_collab (plain_requirements ''Alpha'' [Normal ATK ''>='' 50, Normal ATK ''<='' 30]) []
     = Inr ([\<lparr>b_substat = ATK, b_op = ''<='', b_target = 30\<rparr>], Objective ATK)"
proof -
  have a: "adjusted_valid (self\<lparr>valid := [Normal ATK ''>='' 50, Normal ATK ''<='' 30]\<rparr>)
     = adjusted_valid (self\<lparr>valid := [Normal ATK ''<='' 30]\<rparr>)"
    by (simp add: adjusted_valid_def merged_biscuit_def)
  have b: "realize c (self\<lparr>valid := [Normal ATK ''>='' 50, Normal ATK ''<='' 30]\<rparr>) cookie_sets
     = realize c (self\<lparr>valid := [Normal ATK ''<='' 30]\<rparr>) cookie_sets"
    by (auto simp: realize_def a Let_def split: sum.splits)
  have c: "adjusted_valid (plain_requirements ''Alpha'' [Normal ATK ''>='' 50, Normal ATK ''<='' 30])
     = [Normal ATK ''<='' 30]"
    by (simp add: adjusted_valid_def merged_biscuit_def plain_requirements_def)
  have d: "realize sample_collab (plain_requirements ''Alpha'' [Normal ATK ''>='' 50, Normal ATK ''<='' 30]) []
     = Inr ([\<lparr>b_substat = ATK, b_op = ''<='', b_target = 30\<rparr>], Objective ATK)"
    unfolding realize_def c
    by (simp add: sample_collab_def plain_requirements_def valid_key_def matched_bounds_def dict_get_def)
  from a b c d from_yaml_contradictory_doc show ?thesis by blast
qed

end
